theory Spec2Isabelle
  imports Complex_Main "HOL-Library.Word" "HOL-Library.Signed_Division" "HOL-Library.Monad_Syntax"
begin

unbundle bit_operations_syntax

section \<open>Machine types\<close>

type_synonym u8 = "8 word"
type_synonym u16 = "16 word"
type_synonym i32 = "32 word"
type_synonym u32 = "32 word"

text \<open>
  An \<open>int32_t\<close> is a 32-bit word read through \<open>sint\<close>; \<open>+\<close> and \<open>-\<close> wrap around.
  C++ division of \<open>int32_t\<close> truncates towards zero.
\<close>

definition i32_div :: "i32 \<Rightarrow> i32 \<Rightarrow> i32" where
  "i32_div a b = word_of_int (sint a sdiv sint b)"

section \<open>The I2C bus and the platform\<close>

text \<open>
  The symbolic register addresses of \<open>Adafruit_MMC56x3.h\<close>. The header is not part of
  the sources, so the addresses stay symbolic: one constructor per macro that the
  driver uses.
\<close>

datatype reg =
    MMC56X3_OUT_X_L
  | MMC56X3_OUT_TEMP
  | MMC56X3_STATUS_REG
  | MMC5603_ODR_REG
  | MMC56X3_CTRL0_REG
  | MMC56X3_CTRL1_REG
  | MMC56X3_CTRL2_REG
  | MMC56X3_PRODUCT_ID

text \<open>
  Everything the driver does to the outside world is recorded in a trace, most recent
  event first: register writes, read transactions (register and number of bytes),
  the two kinds of delay and the lines printed on the serial console.
\<close>

datatype event =
    Wr reg u8
  | Rd reg nat
  | DelayUs nat
  | DelayMs nat
  | Println string

type_synonym trace = "event list"

text \<open>
  The platform is everything the driver consumes and does not define: the device's
  answer to a read (a function of the whole trace so far, of the register and of the
  byte offset within a burst read), the millisecond clock, the two constants of
  the unified sensor library that \<open>getEvent\<close> writes into the event, and the
  floating-point formats: the rounding of a real number to the nearest \<open>float\<close> and
  to the nearest \<open>double\<close> of the target (on an AVR target both formats are 32 bits
  wide, elsewhere the \<open>double\<close> has 64 bits).
\<close>

record platform =
  dev_read :: "trace \<Rightarrow> reg \<Rightarrow> nat \<Rightarrow> u8"
  millis :: "trace \<Rightarrow> i32"
  sizeof_sensors_event_t :: i32
  SENSOR_TYPE_MAGNETIC_FIELD :: i32
  to_float :: "real \<Rightarrow> real"
  to_double :: "real \<Rightarrow> real"

text \<open>\<open>Adafruit_BusIO_Register::write\<close> on a one-byte register.\<close>

definition reg_write :: "reg \<Rightarrow> u8 \<Rightarrow> trace \<Rightarrow> trace" where
  "reg_write r v h = Wr r v # h"

text \<open>\<open>Adafruit_BusIO_Register::read\<close> on a one-byte register: the value and the new trace.\<close>

definition reg_read :: "platform \<Rightarrow> reg \<Rightarrow> trace \<Rightarrow> u8 \<times> trace" where
  "reg_read p r h = (dev_read p h r 0, Rd r 1 # h)"

text \<open>\<open>Adafruit_I2CDevice::write_then_read\<close> of one address byte and \<open>n\<close> data bytes.\<close>

definition write_then_read :: "platform \<Rightarrow> reg \<Rightarrow> nat \<Rightarrow> trace \<Rightarrow> u8 list \<times> trace" where
  "write_then_read p r n h = (map (dev_read p h r) [0..<n], Rd r n # h)"

text \<open>
  \<open>Adafruit_BusIO_RegisterBits::read\<close>: the register value shifted right by \<open>shift\<close>
  and masked to \<open>bits\<close> bits.
\<close>

definition regbits_read :: "platform \<Rightarrow> reg \<Rightarrow> nat \<Rightarrow> nat \<Rightarrow> trace \<Rightarrow> u8 \<times> trace" where
  "regbits_read p r bits shift h =
     (drop_bit shift (fst (reg_read p r h)) AND mask bits, snd (reg_read p r h))"

definition delay :: "nat \<Rightarrow> trace \<Rightarrow> trace" where
  "delay ms h = DelayMs ms # h"

definition delayMicroseconds :: "nat \<Rightarrow> trace \<Rightarrow> trace" where
  "delayMicroseconds us h = DelayUs us # h"

definition println :: "string \<Rightarrow> trace \<Rightarrow> trace" where
  "println s h = Println s # h"

section \<open>Decoding a raw sample\<close>

text \<open>
  The three assignments at the end of \<open>readXYZ\<close>, on the nine bytes of the buffer.
  Each byte is widened to \<open>uint32_t\<close> before it is shifted; the shifts bind tighter
  than \<open>|\<close>.
\<close>

definition axis :: "u8 \<Rightarrow> u8 \<Rightarrow> u8 \<Rightarrow> i32" where
  "axis hi mid lo =
     push_bit 12 (ucast hi :: u32) OR push_bit 4 (ucast mid :: u32) OR drop_bit 4 (ucast lo :: u32)"

definition decode :: "u8 list \<Rightarrow> i32 \<times> i32 \<times> i32" where
  "decode buffer =
     (axis (buffer ! 0) (buffer ! 1) (buffer ! 6),
      axis (buffer ! 2) (buffer ! 3) (buffer ! 7),
      axis (buffer ! 4) (buffer ! 5) (buffer ! 8))"

text \<open>\<open>readXYZ\<close>: one burst read of nine bytes from the X output register, then the decode.\<close>

definition readXYZ :: "platform \<Rightarrow> trace \<Rightarrow> (i32 \<times> i32 \<times> i32) \<times> trace" where
  "readXYZ p h =
     (decode (fst (write_then_read p MMC56X3_OUT_X_L 9 h)),
      snd (write_then_read p MMC56X3_OUT_X_L 9 h))"

section \<open>The driver object\<close>

text \<open>
  The data members of \<open>Adafruit_MMC5603\<close> that the member functions read or write.
  The members \<open>x\<close>, \<open>y\<close>, \<open>z\<close> are \<open>raw_x\<close>, \<open>raw_y\<close>, \<open>raw_z\<close> here and
  \<open>bx\<close>, \<open>by\<close>, \<open>bz\<close> are \<open>bias_x\<close>, \<open>bias_y\<close>, \<open>bias_z\<close>; the leading
  underscore of the other members is dropped. The class is declared in the header
  \<open>Adafruit_MMC56x3.h\<close>, which is not part of the sources, so the widths are those
  the member functions use: \<open>int32_t\<close> samples and biases (the arguments of
  \<open>readXYZ\<close>), a \<open>uint16_t\<close> rate (\<open>setDataRate\<close>) and a \<open>uint8_t\<close> shadow of
  control register 2 (\<open>old_ctrl2\<close> in \<open>calibrate\<close>).
\<close>

record driver =
  sensorID :: i32
  raw_x :: i32
  raw_y :: i32
  raw_z :: i32
  bias_x :: i32
  bias_y :: i32
  bias_z :: i32
  odr_cache :: u16
  ctrl2_cache :: u8

type_synonym state = "driver \<times> trace"

subsection \<open>Mode control\<close>

fun setContinuousMode :: "bool \<Rightarrow> state \<Rightarrow> state" where
  "setContinuousMode mode (d, h) =
     (if mode then
        (let h1 = reg_write MMC56X3_CTRL0_REG 0x80 h;
             d1 = d\<lparr>ctrl2_cache := ctrl2_cache d OR 0x10\<rparr>
         in (d1, reg_write MMC56X3_CTRL2_REG (ctrl2_cache d1) h1))
      else
        (let d1 = d\<lparr>ctrl2_cache := ctrl2_cache d AND NOT 0x10\<rparr>
         in (d1, reg_write MMC56X3_CTRL2_REG (ctrl2_cache d1) h)))"

definition isContinuousMode :: "driver \<Rightarrow> bool" where
  "isContinuousMode d = (ctrl2_cache d AND 0x10 \<noteq> 0)"

subsection \<open>Degauss pulse and reset\<close>

definition magnetSetReset :: "trace \<Rightarrow> trace" where
  "magnetSetReset h =
     delay 1 (reg_write MMC56X3_CTRL0_REG 0x10 (delay 1 (reg_write MMC56X3_CTRL0_REG 0x08 h)))"

fun reset :: "state \<Rightarrow> state" where
  "reset (d, h) =
     (let h1 = delay 20 (reg_write MMC56X3_CTRL1_REG 0x80 h);
          d1 = d\<lparr>odr_cache := 0, ctrl2_cache := 0\<rparr>
      in setContinuousMode False (d1, magnetSetReset h1))"

subsection \<open>Data rate\<close>

fun setDataRate :: "u16 \<Rightarrow> state \<Rightarrow> state" where
  "setDataRate rate0 (d, h) =
     (let rate = (if rate0 > 255 then 1000 else rate0);
          d1 = d\<lparr>odr_cache := rate\<rparr>
      in if rate = 1000 then
           (let h1 = reg_write MMC5603_ODR_REG 255 h;
                d2 = d1\<lparr>ctrl2_cache := ctrl2_cache d1 OR 0x80\<rparr>
            in (d2, reg_write MMC56X3_CTRL2_REG (ctrl2_cache d2) h1))
         else
           (let h1 = reg_write MMC5603_ODR_REG (ucast rate) h;
                d2 = d1\<lparr>ctrl2_cache := ctrl2_cache d1 AND NOT 0x80\<rparr>
            in (d2, reg_write MMC56X3_CTRL2_REG (ctrl2_cache d2) h1)))"

definition getDataRate :: "driver \<Rightarrow> u16" where
  "getDataRate d = ucast (ctrl2_cache d)"

subsection \<open>Busy polling\<close>

text \<open>
  The loops \<open>while (!done.read()) { body }\<close> on one bit of the status register:
  \<open>shift\<close> is the position of the bit and \<open>body\<close> what one round of the loop does to
  the trace. The loop has no counter, so it is a partial function: \<open>None\<close> is the
  loop that never ends.
\<close>

partial_function (option) wait_done :: "platform \<Rightarrow> nat \<Rightarrow> (trace \<Rightarrow> trace) \<Rightarrow> trace \<Rightarrow> trace option" where
  "wait_done p shift body h =
     (if fst (regbits_read p MMC56X3_STATUS_REG 1 shift h) \<noteq> 0
      then Some (snd (regbits_read p MMC56X3_STATUS_REG 1 shift h))
      else wait_done p shift body (body (snd (regbits_read p MMC56X3_STATUS_REG 1 shift h))))"

subsection \<open>Calibration\<close>

fun calibrate :: "platform \<Rightarrow> state \<Rightarrow> state option" where
  "calibrate p (d, h) =
     (let (old_ctrl1, h1) = reg_read p MMC56X3_CTRL1_REG h;
          old_ctrl2 = ctrl2_cache d;
          (d1, h2) = setContinuousMode False (d, h1);
          h3 = delayMicroseconds 500 (reg_write MMC56X3_CTRL0_REG 0x08 h2);
          h4 = reg_write MMC56X3_CTRL1_REG 0x20 h3;
          h5 = delayMicroseconds 6600 (reg_write MMC56X3_CTRL0_REG 0x01 h4)
      in do {
        h6 \<leftarrow> wait_done p 6 (\<lambda>t. delay 1 (println ''Not done reading!S'' t)) h5;
        let ((x_high, y_high, z_high), h7) = readXYZ p h6;
            h8 = delayMicroseconds 500 (reg_write MMC56X3_CTRL0_REG 0x10 h7);
            h9 = delayMicroseconds 6600 (reg_write MMC56X3_CTRL0_REG 0x01 h8)
        in do {
          h10 \<leftarrow> wait_done p 6 (\<lambda>t. delay 1 (println ''Not done reading!R'' t)) h9;
          let ((x_low, y_low, z_low), h11) = readXYZ p h10;
              d2 = d1\<lparr>bias_x := i32_div (x_high + x_low) 2,
                      bias_y := i32_div (y_high + y_low) 2,
                      bias_z := i32_div (z_high + z_low) 2\<rparr>;
              h12 = reg_write MMC56X3_CTRL1_REG old_ctrl1 h11;
              h13 = reg_write MMC56X3_CTRL2_REG old_ctrl2 h12;
              d3 = d2\<lparr>ctrl2_cache := old_ctrl2\<rparr>;
              h14 = magnetSetReset h13
          in Some (setContinuousMode (isContinuousMode d3) (d3, h14))
        }
      })"

subsection \<open>Floating-point results\<close>

text \<open>
  A C \<open>float\<close> result is either the not-a-number sentinel or a finite number, and a
  finite \<open>float\<close> or \<open>double\<close> is the real number it denotes. Floating-point
  arithmetic rounds: every conversion, literal and operation of the source is the
  exact operation followed by the rounding to the format of its result, as IEEE 754
  has it. The magnitudes that occur (samples below \<open>2^31\<close>, bytes below 256) are far
  from the overflow threshold, so no infinity arises.
\<close>

datatype float = NAN | Val real

text \<open>The conversion of an integer to \<open>float\<close>, as in \<open>(float)x\<close>.\<close>

definition f_of_int :: "platform \<Rightarrow> int \<Rightarrow> real" where
  "f_of_int p k = to_float p (real_of_int k)"

text \<open>The promotion of a \<open>float\<close> operand to \<open>double\<close>.\<close>

definition d_of_f :: "platform \<Rightarrow> real \<Rightarrow> real" where
  "d_of_f p x = to_double p x"

text \<open>A decimal literal such as \<open>0.8\<close>, which is a \<open>double\<close>.\<close>

definition d_lit :: "platform \<Rightarrow> real \<Rightarrow> real" where
  "d_lit p c = to_double p c"

text \<open>The product of two \<open>double\<close> values.\<close>

definition d_mul :: "platform \<Rightarrow> real \<Rightarrow> real \<Rightarrow> real" where
  "d_mul p a b = to_double p (a * b)"

text \<open>The conversion of a \<open>double\<close> to \<open>float\<close>, as in a store to a \<open>float\<close>.\<close>

definition f_of_d :: "platform \<Rightarrow> real \<Rightarrow> real" where
  "f_of_d p x = to_float p x"

text \<open>The difference of two \<open>float\<close> values.\<close>

definition f_sub :: "platform \<Rightarrow> real \<Rightarrow> real \<Rightarrow> real" where
  "f_sub p a b = to_float p (a - b)"

subsection \<open>Temperature\<close>

fun readTemperature :: "platform \<Rightarrow> state \<Rightarrow> (float \<times> state) option" where
  "readTemperature p (d, h) =
     (if isContinuousMode d then Some (NAN, (d, h))
      else do {
        h1 \<leftarrow> wait_done p 7 (delay 5) (reg_write MMC56X3_CTRL0_REG 0x02 h);
        let (temp_data, h2) = reg_read p MMC56X3_OUT_TEMP h1;
            temp = f_of_int p (uint temp_data);
            temp = f_of_d p (d_mul p (d_of_f p temp) (d_lit p 0.8));
            temp = f_sub p temp (f_of_int p 75)
        in Some (Val temp, (d, h2))
      })"

subsection \<open>Sensor events\<close>

text \<open>
  The part of \<open>sensors_event_t\<close> (unified sensor library) that \<open>getEvent\<close> deals
  with: the five integer fields, and of the data union the magnetic vector with its
  status byte.
\<close>

record sensors_event =
  version :: i32
  sensor_id :: i32
  type_tag :: i32
  reserved0 :: i32
  timestamp :: i32
  magnetic_x :: float
  magnetic_y :: float
  magnetic_z :: float
  magnetic_status :: u8

text \<open>\<open>memset(event, 0, sizeof(sensors_event_t))\<close>: every field becomes zero.\<close>

definition memset_zero :: "sensors_event \<Rightarrow> sensors_event" where
  "memset_zero event =
     \<lparr>version = 0, sensor_id = 0, type_tag = 0, reserved0 = 0, timestamp = 0,
      magnetic_x = Val 0, magnetic_y = Val 0, magnetic_z = Val 0, magnetic_status = 0\<rparr>"

text \<open>
  The expression \<open>(float)x * 0.00625\<close> stored to a \<open>float\<close> field: the cast of the
  \<open>int32_t\<close>, its promotion to \<open>double\<close> for the product with the \<open>double\<close>
  literal, and the conversion of the product to \<open>float\<close>.
\<close>

definition scale_uT :: "platform \<Rightarrow> i32 \<Rightarrow> float" where
  "scale_uT p v = Val (f_of_d p (d_mul p (d_of_f p (f_of_int p (sint v))) (d_lit p 0.00625)))"

fun getEvent :: "platform \<Rightarrow> sensors_event \<Rightarrow> state \<Rightarrow> (bool \<times> sensors_event \<times> state) option" where
  "getEvent p event (d, h) =
     (let event = memset_zero event in
      do {
        h1 \<leftarrow> (if \<not> isContinuousMode d
               then wait_done p 6 (delay 5) (reg_write MMC56X3_CTRL0_REG 0x01 h)
               else Some h);
        let ((x1, y1, z1), h2) = readXYZ p h1;
            d1 = d\<lparr>raw_x := x1, raw_y := y1, raw_z := z1\<rparr>;
            d2 = d1\<lparr>raw_x := raw_x d1 - bias_x d1\<rparr>;
            d3 = d2\<lparr>raw_y := raw_y d2 - bias_y d2\<rparr>;
            d4 = d3\<lparr>raw_z := raw_z d3 - bias_z d3\<rparr>;
            event = event\<lparr>version := sizeof_sensors_event_t p\<rparr>;
            event = event\<lparr>sensor_id := sensorID d4\<rparr>;
            event = event\<lparr>type_tag := SENSOR_TYPE_MAGNETIC_FIELD p\<rparr>;
            event = event\<lparr>timestamp := millis p h2\<rparr>;
            event = event\<lparr>magnetic_x := scale_uT p (raw_x d4)\<rparr>;
            event = event\<lparr>magnetic_y := scale_uT p (raw_y d4)\<rparr>;
            event = event\<lparr>magnetic_z := scale_uT p (raw_z d4)\<rparr>
        in Some (True, event, (d4, h2))
      })"

section \<open>Notions used to state the properties\<close>

text \<open>The polled bit of the status register, as the device would answer after trace \<open>h\<close>.\<close>

definition done_bit :: "platform \<Rightarrow> nat \<Rightarrow> trace \<Rightarrow> bool" where
  "done_bit p shift h = bit (dev_read p h MMC56X3_STATUS_REG 0) shift"

text \<open>The trace at the start of round \<open>k\<close> of a polling loop entered with trace \<open>h\<close>.\<close>

fun poll_trace :: "(trace \<Rightarrow> trace) \<Rightarrow> nat \<Rightarrow> trace \<Rightarrow> trace" where
  "poll_trace body 0 h = h"
| "poll_trace body (Suc k) h = poll_trace body k (body (Rd MMC56X3_STATUS_REG 1 # h))"

text \<open>Round \<open>k\<close> is the first one in which the polled bit reads as set.\<close>

definition first_done :: "platform \<Rightarrow> nat \<Rightarrow> (trace \<Rightarrow> trace) \<Rightarrow> trace \<Rightarrow> nat \<Rightarrow> bool" where
  "first_done p shift body h k =
     ((\<forall>j \<in> set [0..<k]. \<not> done_bit p shift (poll_trace body j h)) \<and>
      done_bit p shift (poll_trace body k h))"

text \<open>The value most recently written to a register, if any.\<close>

fun last_write :: "reg \<Rightarrow> trace \<Rightarrow> u8 option" where
  "last_write r [] = None"
| "last_write r (Wr r' v # h) = (if r' = r then Some v else last_write r h)"
| "last_write r (e # h) = last_write r h"

text \<open>The bodies of the two polling loops of \<open>calibrate\<close>.\<close>

definition body_S :: "trace \<Rightarrow> trace" where
  "body_S = (\<lambda>t. delay 1 (println ''Not done reading!S'' t))"

definition body_R :: "trace \<Rightarrow> trace" where
  "body_R = (\<lambda>t. delay 1 (println ''Not done reading!R'' t))"

text \<open>
  The trace of \<open>calibrate\<close> when its first polling loop is entered, and when its second
  one is entered after the first has ended with trace \<open>h6\<close>.
\<close>

definition calibrate_poll1 :: "driver \<Rightarrow> trace \<Rightarrow> trace" where
  "calibrate_poll1 d h =
     [DelayUs 6600, Wr MMC56X3_CTRL0_REG 0x01, Wr MMC56X3_CTRL1_REG 0x20, DelayUs 500,
      Wr MMC56X3_CTRL0_REG 0x08, Wr MMC56X3_CTRL2_REG (ctrl2_cache d AND NOT 0x10),
      Rd MMC56X3_CTRL1_REG 1] @ h"

definition calibrate_poll2 :: "trace \<Rightarrow> trace" where
  "calibrate_poll2 h6 =
     [DelayUs 6600, Wr MMC56X3_CTRL0_REG 0x01, DelayUs 500, Wr MMC56X3_CTRL0_REG 0x10,
      Rd MMC56X3_OUT_X_L 9] @ h6"

text \<open>
  The driver that \<open>calibrate\<close> leaves behind when its two samples were read after
  the traces \<open>h6\<close> and \<open>h10\<close>, and the trace it leaves behind: the restored
  registers, the degauss pulse and the restored mode, on top of the second sample read.
\<close>

definition calibrate_bias :: "platform \<Rightarrow> driver \<Rightarrow> trace \<Rightarrow> trace \<Rightarrow> driver" where
  "calibrate_bias p d h6 h10 =
     (case (fst (readXYZ p h6), fst (readXYZ p h10)) of
        ((x_high, y_high, z_high), (x_low, y_low, z_low)) \<Rightarrow>
          d\<lparr>bias_x := i32_div (x_high + x_low) 2,
            bias_y := i32_div (y_high + y_low) 2,
            bias_z := i32_div (z_high + z_low) 2\<rparr>)"

definition calibrate_exit :: "platform \<Rightarrow> driver \<Rightarrow> trace \<Rightarrow> trace \<Rightarrow> trace" where
  "calibrate_exit p d h h10 =
     (if isContinuousMode d
      then [Wr MMC56X3_CTRL2_REG (ctrl2_cache d), Wr MMC56X3_CTRL0_REG 0x80]
      else [Wr MMC56X3_CTRL2_REG (ctrl2_cache d)]) @
     [DelayMs 1, Wr MMC56X3_CTRL0_REG 0x10, DelayMs 1, Wr MMC56X3_CTRL0_REG 0x08,
      Wr MMC56X3_CTRL2_REG (ctrl2_cache d),
      Wr MMC56X3_CTRL1_REG (dev_read p h MMC56X3_CTRL1_REG 0),
      Rd MMC56X3_OUT_X_L 9] @ h10"

text \<open>
  What \<open>getEvent\<close> returns when it reads its sample after the trace \<open>h1\<close>: the
  return value, the event, the driver with the corrected sample and the trace.
\<close>

definition getEvent_result :: "platform \<Rightarrow> driver \<Rightarrow> trace \<Rightarrow> bool \<times> sensors_event \<times> state" where
  "getEvent_result p d h1 =
     (case decode (map (dev_read p h1 MMC56X3_OUT_X_L) [0..<9]) of (X, Y, Z) \<Rightarrow>
        (True,
         \<lparr>version = sizeof_sensors_event_t p, sensor_id = sensorID d,
          type_tag = SENSOR_TYPE_MAGNETIC_FIELD p, reserved0 = 0,
          timestamp = millis p (Rd MMC56X3_OUT_X_L 9 # h1),
          magnetic_x = scale_uT p (X - bias_x d),
          magnetic_y = scale_uT p (Y - bias_y d),
          magnetic_z = scale_uT p (Z - bias_z d),
          magnetic_status = 0\<rparr>,
         d\<lparr>raw_x := X - bias_x d, raw_y := Y - bias_y d, raw_z := Z - bias_z d\<rparr>,
         Rd MMC56X3_OUT_X_L 9 # h1))"

text \<open>
  The temperature that \<open>readTemperature\<close> computes from the byte of the temperature
  register.
\<close>

definition temp_of_byte :: "platform \<Rightarrow> u8 \<Rightarrow> real" where
  "temp_of_byte p b =
     f_sub p (f_of_d p (d_mul p (d_of_f p (f_of_int p (uint b))) (d_lit p 0.8))) (f_of_int p 75)"

text \<open>An integer that an \<open>int32_t\<close> can hold.\<close>

definition fits_i32 :: "int \<Rightarrow> bool" where
  "fits_i32 k = (- (2 ^ 31) \<le> k \<and> k < 2 ^ 31)"



text \<open>
  The relative error of the scaling, which rounds five times (the cast, the promotion,
  the literal, the product and the store), and the absolute error of the temperature
  of a register value \<open>b\<close>, which rounds the constant 75 and the difference as well.
\<close>

definition scale_err :: "real \<Rightarrow> real \<Rightarrow> real" where
  "scale_err uf ud = (1 + uf) ^ 2 * (1 + ud) ^ 3 - 1"

definition temp_err :: "real \<Rightarrow> real \<Rightarrow> real \<Rightarrow> real" where
  "temp_err uf ud b =
     uf * \<bar>b * 0.8 - 75\<bar> + (1 + uf) * (scale_err uf ud * \<bar>b * 0.8\<bar> + uf * 75)"



text \<open>
  The rounded mean in the words of the specification, \<open>round((high + low)/2)\<close>, on the
  integer values of the two samples.
\<close>

definition round_mean :: "int \<Rightarrow> int \<Rightarrow> int" where
  "round_mean high low = round ((real_of_int high + real_of_int low) / 2)"

subsection \<open>Concrete platforms and a concrete driver\<close>

text \<open>
  IEEE 754 round-to-nearest, ties to even, to a binary format with \<open>prec\<close>
  significant bits (24 for the 32-bit format, 53 for the 64-bit format); the exponent
  range is left unbounded, as no value here comes near its ends.
\<close>

definition round_even :: "real \<Rightarrow> int" where
  "round_even x =
     (if x - real_of_int \<lfloor>x\<rfloor> < 1 / 2 then \<lfloor>x\<rfloor>
      else if 1 / 2 < x - real_of_int \<lfloor>x\<rfloor> then \<lfloor>x\<rfloor> + 1
      else if even \<lfloor>x\<rfloor> then \<lfloor>x\<rfloor> else \<lfloor>x\<rfloor> + 1)"

definition rne :: "nat \<Rightarrow> real \<Rightarrow> real" where
  "rne prec v =
     (if v = 0 then 0
      else (let e = \<lfloor>log 2 \<bar>v\<bar>\<rfloor>;
                q = 2 powr real_of_int (e - int prec + 1)
            in q * real_of_int (round_even (v / q))))"

text \<open>The number of bus events since the last measurement trigger.\<close>

definition since_trigger :: "trace \<Rightarrow> nat" where
  "since_trigger h =
     length (takeWhile (\<lambda>e. e \<noteq> Wr MMC56X3_CTRL0_REG 0x01 \<and> e \<noteq> Wr MMC56X3_CTRL0_REG 0x02) h)"

text \<open>
  A device whose measurements are done four bus events after the trigger. Its X
  sample is 2 before the reset pulse and 1 after it, its Y sample is 80, its Z
  sample 0, control register 1 reads as 3 and the temperature register as 1. The
  platform has IEEE 754 formats of 32 and 64 bits.
\<close>

definition demo_read :: "trace \<Rightarrow> reg \<Rightarrow> nat \<Rightarrow> u8" where
  "demo_read h r i =
     (if r = MMC56X3_STATUS_REG then (if 4 \<le> since_trigger h then 0xC0 else 0)
      else if r = MMC56X3_OUT_X_L then
        (if i = 6 then (if Wr MMC56X3_CTRL0_REG 0x10 \<in> set h then 0x10 else 0x20)
         else if i = 3 then 5 else 0)
      else if r = MMC56X3_CTRL1_REG then 3
      else if r = MMC56X3_OUT_TEMP then 1
      else 0)"

definition demo_platform :: platform where
  "demo_platform =
     \<lparr>dev_read = demo_read, millis = (\<lambda>h. of_nat (length h)),
      sizeof_sensors_event_t = 36, SENSOR_TYPE_MAGNETIC_FIELD = 2,
      to_float = rne 24, to_double = rne 53\<rparr>"

text \<open>A device that never reports a finished measurement.\<close>

definition stuck_platform :: platform where
  "stuck_platform =
     \<lparr>dev_read = (\<lambda>h r i. 0), millis = (\<lambda>h. 0),
      sizeof_sensors_event_t = 36, SENSOR_TYPE_MAGNETIC_FIELD = 2,
      to_float = rne 24, to_double = rne 53\<rparr>"

text \<open>
  A device that reports a finished measurement at once, but never again after the
  reset pulse.
\<close>

definition half_stuck_platform :: platform where
  "half_stuck_platform =
     \<lparr>dev_read = (\<lambda>h r i. if Wr MMC56X3_CTRL0_REG 0x10 \<in> set h then 0 else 0xFF),
      millis = (\<lambda>h. 0), sizeof_sensors_event_t = 36, SENSOR_TYPE_MAGNETIC_FIELD = 2,
      to_float = rne 24, to_double = rne 53\<rparr>"

definition demo_driver :: driver where
  "demo_driver =
     \<lparr>sensorID = 12345, raw_x = 0, raw_y = 0, raw_z = 0,
      bias_x = 7, bias_y = 100, bias_z = 0, odr_cache = 0, ctrl2_cache = 0\<rparr>"

text \<open>
  The traces after which \<open>calibrate\<close>, started on the demo device with the demo driver
  and an empty trace, reads its two samples: each polling loop ends in its second round.
\<close>

definition demo_h6 :: trace where
  "demo_h6 = Rd MMC56X3_STATUS_REG 1 # poll_trace body_S 1 (calibrate_poll1 demo_driver [])"

definition demo_h10 :: trace where
  "demo_h10 = Rd MMC56X3_STATUS_REG 1 # poll_trace body_R 1 (calibrate_poll2 demo_h6)"



definition demo_event :: sensors_event where
  "demo_event =
     \<lparr>version = 9, sensor_id = 9, type_tag = 9, reserved0 = 9, timestamp = 9,
      magnetic_x = NAN, magnetic_y = NAN, magnetic_z = NAN, magnetic_status = 9\<rparr>"

section \<open>The decode, arithmetically\<close>

lemma uint_u8_lt: "uint (b :: u8) < 256"
  using uint_bounded [of b] by simp

lemma ucast_u8_u32 [simp]: "uint (ucast (b :: u8) :: u32) = uint b"
  by (simp add: uint_up_ucast is_up)

lemma axis_uint:
  "uint (axis hi mid lo) = uint hi * 4096 + uint mid * 16 + uint lo div 16"
proof -
  let ?a = "push_bit 12 (uint hi)" and ?b = "push_bit 4 (uint mid)" and ?c = "drop_bit 4 (uint lo)"
  have bc: "?b OR ?c = ?b + ?c"
    by (rule disjunctive_add_eq_or [symmetric])
       (auto simp: bit_eq_iff bit_simps dest: bit_imp_le_length)
  have abc: "?a OR (?b OR ?c) = ?a + (?b OR ?c)"
    by (rule disjunctive_add_eq_or [symmetric])
       (auto simp: bit_eq_iff bit_simps dest: bit_imp_le_length)
  have ta: "take_bit 32 ?a = ?a"
    using uint_u8_lt [of hi] by (simp add: take_bit_int_eq_self_iff push_bit_eq_mult)
  have tb: "take_bit 32 ?b = ?b"
    using uint_u8_lt [of mid] by (simp add: take_bit_int_eq_self_iff push_bit_eq_mult)
  have tc: "take_bit 32 (uint lo) = uint lo"
    using uint_u8_lt [of lo] by (simp add: take_bit_int_eq_self_iff)
  have "uint (axis hi mid lo) = ?a OR (?b OR ?c)"
    unfolding axis_def
    by (simp add: unsigned_or_eq unsigned_drop_bit_eq unsigned_push_bit_eq ta tb tc or.assoc)
  also have "\<dots> = ?a + (?b + ?c)"
    using abc bc by simp
  finally show ?thesis
    by (simp add: push_bit_eq_mult drop_bit_eq_div)
qed

lemma axis_lt: "uint (axis hi mid lo) < 2 ^ 20"
  using uint_u8_lt [of hi] uint_u8_lt [of mid] uint_u8_lt [of lo]
  by (simp add: axis_uint)

lemma axis_sint: "sint (axis hi mid lo) = uint (axis hi mid lo)"
proof -
  have "(- (2 ^ 31) :: int) \<le> 0" by simp
  also have "0 \<le> uint (axis hi mid lo)" by simp
  finally have lo: "- (2 ^ 31) \<le> uint (axis hi mid lo)" .
  have "uint (axis hi mid lo) < 2 ^ 20" by (rule axis_lt)
  also have "(2 ^ 20 :: int) < 2 ^ 31" by simp
  finally have hi: "uint (axis hi mid lo) < 2 ^ 31" .
  from lo hi have "signed_take_bit 31 (uint (axis hi mid lo)) = uint (axis hi mid lo)"
    by (rule signed_take_bit_int_eq_self)
  then show ?thesis by (simp add: sint_uint)
qed

lemma int_or_sum:
  "push_bit 12 (uint (hi :: u8)) OR push_bit 4 (uint (mid :: u8)) OR drop_bit 4 (uint (lo :: u8)) =
   uint hi * 4096 + uint mid * 16 + uint lo div 16"
proof -
  let ?a = "push_bit 12 (uint hi)" and ?b = "push_bit 4 (uint mid)" and ?c = "drop_bit 4 (uint lo)"
  have bc: "?b OR ?c = ?b + ?c"
    by (rule disjunctive_add_eq_or [symmetric])
       (auto simp: bit_eq_iff bit_simps dest: bit_imp_le_length)
  have abc: "?a OR (?b OR ?c) = ?a + (?b OR ?c)"
    by (rule disjunctive_add_eq_or [symmetric])
       (auto simp: bit_eq_iff bit_simps dest: bit_imp_le_length)
  have "?a OR ?b OR ?c = ?a + (?b + ?c)"
    using abc bc by (simp add: or.assoc)
  then show ?thesis
    by (simp add: push_bit_eq_mult drop_bit_eq_div)
qed

lemma readXYZ_eq:
  "readXYZ p h = (decode (map (dev_read p h MMC56X3_OUT_X_L) [0..<9]), Rd MMC56X3_OUT_X_L 9 # h)"
  by (simp add: readXYZ_def write_then_read_def)

lemma axis_sint_or:
  "sint (axis hi mid lo) = push_bit 12 (uint hi) OR push_bit 4 (uint mid) OR drop_bit 4 (uint lo)"
  by (simp only: axis_sint axis_uint int_or_sum)

lemma axis_sint_range: "0 \<le> sint (axis hi mid lo)" "sint (axis hi mid lo) < 2 ^ 20"
  by (simp_all only: axis_sint axis_lt uint_ge_0)

lemma upt_9: "[0..<9] = [0, 1, 2, 3, 4, 5, 6, 7, 8]"
  by (simp add: upt_rec)

lemma readXYZ_axes:
  "fst (readXYZ p h) =
     (axis (dev_read p h MMC56X3_OUT_X_L 0) (dev_read p h MMC56X3_OUT_X_L 1) (dev_read p h MMC56X3_OUT_X_L 6),
      axis (dev_read p h MMC56X3_OUT_X_L 2) (dev_read p h MMC56X3_OUT_X_L 3) (dev_read p h MMC56X3_OUT_X_L 7),
      axis (dev_read p h MMC56X3_OUT_X_L 4) (dev_read p h MMC56X3_OUT_X_L 5) (dev_read p h MMC56X3_OUT_X_L 8))"
  by (simp add: readXYZ_eq upt_9 decode_def)

section \<open>The polling loop\<close>

lemma regbits_done: "(fst (regbits_read p MMC56X3_STATUS_REG 1 shift h) \<noteq> 0) = done_bit p shift h"
  by (simp add: regbits_read_def reg_read_def done_bit_def bit_iff_odd_drop_bit and_one_eq odd_iff_mod_2_eq_one)

lemma regbits_trace: "snd (regbits_read p r bits shift h) = Rd r 1 # h"
  by (simp add: regbits_read_def reg_read_def)

lemma wait_done_unfold:
  "wait_done p shift body h =
     (if done_bit p shift h then Some (Rd MMC56X3_STATUS_REG 1 # h)
      else wait_done p shift body (body (Rd MMC56X3_STATUS_REG 1 # h)))"
  by (subst wait_done.simps) (simp only: regbits_done regbits_trace)

lemma first_done_0: "first_done p shift body h 0 = done_bit p shift h"
  by (simp add: first_done_def)

lemma ball_upt: "(\<forall>j \<in> set [0..<k]. P j) = (\<forall>j<k. P j)"
  by auto

lemma first_done_Suc:
  "first_done p shift body h (Suc k) =
     (\<not> done_bit p shift h \<and> first_done p shift body (body (Rd MMC56X3_STATUS_REG 1 # h)) k)"
  unfolding first_done_def ball_upt
  by (simp only: All_less_Suc2 poll_trace.simps conj_assoc)

lemma wait_done_first:
  "first_done p shift body h k \<Longrightarrow>
   wait_done p shift body h = Some (Rd MMC56X3_STATUS_REG 1 # poll_trace body k h)"
proof (induction k arbitrary: h)
  case 0
  then show ?case by (subst wait_done_unfold) (simp add: first_done_0)
next
  case (Suc k)
  then show ?case
    by (subst wait_done_unfold) (simp add: first_done_Suc)
qed

lemma wait_done_SomeD:
  assumes "wait_done p shift body h = Some h'"
  shows "\<exists>k. first_done p shift body h k \<and> h' = Rd MMC56X3_STATUS_REG 1 # poll_trace body k h"
  using assms
proof (induction rule: wait_done.raw_induct [rotated 1, consumes 1])
  case (1 wd p shift body h h')
  show ?case
  proof (cases "done_bit p shift h")
    case True
    with 1(2) [unfolded regbits_done regbits_trace] have "h' = Rd MMC56X3_STATUS_REG 1 # h"
      by simp
    with True have "first_done p shift body h 0 \<and> h' = Rd MMC56X3_STATUS_REG 1 # poll_trace body 0 h"
      by (simp add: first_done_0)
    then show ?thesis by blast
  next
    case False
    with 1(2) [unfolded regbits_done regbits_trace]
    have "wd p shift body (body (Rd MMC56X3_STATUS_REG 1 # h)) = Some h'"
      by simp
    from 1(1) [OF this] obtain k where
      "first_done p shift body (body (Rd MMC56X3_STATUS_REG 1 # h)) k"
      "h' = Rd MMC56X3_STATUS_REG 1 # poll_trace body k (body (Rd MMC56X3_STATUS_REG 1 # h))"
      by blast
    with False have "first_done p shift body h (Suc k) \<and> h' = Rd MMC56X3_STATUS_REG 1 # poll_trace body (Suc k) h"
      by (simp add: first_done_Suc)
    then show ?thesis by blast
  qed
qed

lemma wait_done_None:
  "(\<And>k. \<not> done_bit p shift (poll_trace body k h)) \<Longrightarrow> wait_done p shift body h = None"
proof (rule ccontr)
  assume nd: "\<And>k. \<not> done_bit p shift (poll_trace body k h)"
  assume "wait_done p shift body h \<noteq> None"
  then obtain h' where "wait_done p shift body h = Some h'" by blast
  from wait_done_SomeD [OF this] obtain k where "first_done p shift body h k" by blast
  then have "done_bit p shift (poll_trace body k h)" by (simp add: first_done_def)
  with nd show False by blast
qed

section \<open>The bits of the control register 2 shadow\<close>

lemma and_0x10_bit4: "((c :: u8) AND 0x10 \<noteq> 0) = bit c 4"
  by (simp add: bit_iff_and_push_bit_not_eq_0)

lemma bit_0x10: "bit (0x10 :: u8) n = (n = 4)"
proof -
  have "(0x10 :: u8) = push_bit 4 1" by simp
  then show ?thesis by (auto simp only: bit_simps) simp_all
qed

lemma cmm_on_id: "bit (c :: u8) 4 \<Longrightarrow> c OR 0x10 = c"
  apply (rule bit_eqI)
  apply (simp only: bit_or_iff bit_0x10)
  apply auto
  done
   
lemma cmm_off_id: "\<not> bit (c :: u8) 4 \<Longrightarrow> c AND NOT 0x10 = c"
  apply (rule bit_eqI)
  apply (simp only: bit_and_iff bit_not_iff bit_0x10)
  apply auto
  done

lemma cmm_off_id_neg: "\<not> bit (c :: u8) 4 \<Longrightarrow> c AND - 17 = c"
  using cmm_off_id [of c] by simp

lemma setDataRate_cache:
  "ctrl2_cache (fst (setDataRate rate (d, h))) =
     (if 255 < rate then ctrl2_cache d OR 0x80 else ctrl2_cache d AND NOT 0x80)"
  by (auto simp: Let_def)

lemma hpower_on_rest: "((c :: u8) OR 0x80) AND NOT 0x80 = c AND NOT 0x80"
  by (auto simp: bit_eq_iff bit_simps)

lemma hpower_off_rest: "((c :: u8) AND NOT 0x80) AND NOT 0x80 = c AND NOT 0x80"
  by (auto simp: bit_eq_iff bit_simps)

lemma hpower_bit4: "bit ((c :: u8) OR 0x80) 4 = bit c 4" "bit (c AND NOT 0x80) 4 = bit c 4"
  by (simp_all add: bit_simps)

text \<open>
  The driver only ever sets the bits 0x10 and 0x80 of the shadow: \<open>reset\<close> clears
  it, and the two setters keep every other bit clear.
\<close>

lemma reset_ctrl2: "ctrl2_cache (fst (reset (d, h))) = 0"
  by (simp add: Let_def)

lemma or_and_not_absorb: "((c :: u8) OR b) AND NOT (b OR e) = c AND NOT (b OR e)"
  by (auto simp: bit_eq_iff bit_simps)

lemma or_and_not_absorb2: "((c :: u8) OR e) AND NOT (b OR e) = c AND NOT (b OR e)"
  by (auto simp: bit_eq_iff bit_simps)

lemma and_not_zero: "(c :: u8) AND NOT m = 0 \<Longrightarrow> (c AND b) AND NOT m = 0"
proof -
  assume z: "c AND NOT m = 0"
  have "(c AND b) AND NOT m = (c AND NOT m) AND b"
    by (simp add: ac_simps)
  with z show ?thesis by simp
qed

lemma managed_split: "(0x90 :: u8) = 0x10 OR 0x80"
  by simp

lemma setContinuousMode_managed_bits:
  assumes "ctrl2_cache d AND NOT 0x90 = 0"
  shows "ctrl2_cache (fst (setContinuousMode m (d, h))) AND NOT 0x90 = 0"
proof (cases m)
  case True
  then have "ctrl2_cache (fst (setContinuousMode m (d, h))) = ctrl2_cache d OR 0x10"
    by (simp add: Let_def)
  with assms show ?thesis
    unfolding managed_split by (simp only: or_and_not_absorb)
next
  case False
  then have "ctrl2_cache (fst (setContinuousMode m (d, h))) = ctrl2_cache d AND NOT 0x10"
    by (simp add: Let_def)
  with assms show ?thesis
    by (simp only: and_not_zero)
qed

lemma setDataRate_managed_bits:
  assumes "ctrl2_cache d AND NOT 0x90 = 0"
  shows "ctrl2_cache (fst (setDataRate r (d, h))) AND NOT 0x90 = 0"
proof (cases "255 < r")
  case True
  then have "ctrl2_cache (fst (setDataRate r (d, h))) = ctrl2_cache d OR 0x80"
    by (simp only: setDataRate_cache if_True)
  with assms show ?thesis
    unfolding managed_split by (simp only: or_and_not_absorb2)
next
  case False
  then have "ctrl2_cache (fst (setDataRate r (d, h))) = ctrl2_cache d AND NOT 0x80"
    by (simp only: setDataRate_cache if_False)
  with assms show ?thesis
    by (simp only: and_not_zero)
qed

section \<open>Calibration, unfolded\<close>

lemma calibrate_unfold:
  "calibrate p (d, h) =
     do {
       h6 \<leftarrow> wait_done p 6 body_S (calibrate_poll1 d h);
       h10 \<leftarrow> wait_done p 6 body_R (calibrate_poll2 h6);
       Some (calibrate_bias p d h6 h10, calibrate_exit p d h h10)
     }"
proof (cases "wait_done p 6 body_S (calibrate_poll1 d h)")
  case None
  then show ?thesis
    by (simp add: reg_read_def reg_write_def delayMicroseconds_def delay_def
      println_def split_def Let_def calibrate_poll1_def body_S_def)
next
  case h6: (Some h6)
  show ?thesis
  proof (cases "wait_done p 6 body_R (calibrate_poll2 h6)")
    case None
    with h6 show ?thesis
      by (simp add: reg_read_def reg_write_def delayMicroseconds_def delay_def
        println_def readXYZ_def write_then_read_def split_def Let_def
        calibrate_poll1_def calibrate_poll2_def body_S_def body_R_def)
  next
    case h10: (Some h10)
    show ?thesis
    proof (cases "bit (ctrl2_cache d) 4")
      case True
      with h6 h10 show ?thesis
        by (simp add: reg_read_def reg_write_def delayMicroseconds_def delay_def
          println_def magnetSetReset_def readXYZ_def write_then_read_def split_def Let_def
          calibrate_poll1_def calibrate_poll2_def calibrate_exit_def calibrate_bias_def
          body_S_def body_R_def isContinuousMode_def and_0x10_bit4 cmm_on_id)
    next
      case False
      with h6 h10 show ?thesis
        by (simp add: reg_read_def reg_write_def delayMicroseconds_def delay_def
          println_def magnetSetReset_def readXYZ_def write_then_read_def split_def Let_def
          calibrate_poll1_def calibrate_poll2_def calibrate_exit_def calibrate_bias_def
          body_S_def body_R_def isContinuousMode_def and_0x10_bit4 cmm_off_id_neg)
    qed
  qed
qed

section \<open>The integer mean of two samples\<close>

lemma sint_i32_small: "- (2 ^ 31) \<le> k \<Longrightarrow> k < 2 ^ 31 \<Longrightarrow> sint (word_of_int k :: i32) = k"
  by (simp add: signed_of_int signed_take_bit_int_eq_self)

lemma sdiv_nonneg: "0 \<le> (k :: int) \<Longrightarrow> k sdiv 2 = k div 2"
  by (cases "k = 0") (simp_all add: signed_divide_int_def)

lemma i32_mean:
  assumes a: "0 \<le> sint (a :: i32)" "sint a < 2 ^ 20" and b: "0 \<le> sint (b :: i32)" "sint b < 2 ^ 20"
  shows "sint (i32_div (a + b) 2) = (sint a + sint b) sdiv 2"
    and "(sint a + sint b) sdiv 2 = (sint a + sint b) div 2"
proof -
  let ?s = "sint a + sint b"
  have s: "0 \<le> ?s" "?s < 2 ^ 21" using a b by simp_all
  then have "- (2 ^ 31) \<le> ?s" "?s < 2 ^ 31" by simp_all
  then have sum: "sint (a + b) = ?s"
    by (simp add: sint_word_add signed_take_bit_int_eq_self)
  show d: "?s sdiv 2 = ?s div 2" using s(1) by (rule sdiv_nonneg)
  have "- (2 ^ 31) \<le> ?s div 2" "?s div 2 < 2 ^ 31" using s by simp_all
  then have "sint (word_of_int (?s div 2) :: i32) = ?s div 2" by (rule sint_i32_small)
  then show "sint (i32_div (a + b) 2) = ?s sdiv 2"
    by (simp add: i32_div_def sum d)
qed

lemma i32_mean_example: "i32_div (100000 + (- 40)) 2 = 49980"
  by (simp add: i32_div_def signed_divide_int_def)

section \<open>What calibrate returns\<close>

lemma calibrate_SomeD:
  assumes "calibrate p (d, h) = Some (d', h')"
  shows "\<exists>h6 h10.
           wait_done p 6 body_S (calibrate_poll1 d h) = Some h6 \<and>
           wait_done p 6 body_R (calibrate_poll2 h6) = Some h10 \<and>
           d' = calibrate_bias p d h6 h10 \<and> h' = calibrate_exit p d h h10"
  using assms unfolding calibrate_unfold
  by (auto simp: bind_eq_Some_conv)

lemma axis_mean:
  "sint (i32_div (axis a b c + axis a' b' c') 2) = (sint (axis a b c) + sint (axis a' b' c')) sdiv 2"
  by (rule i32_mean(1)) (rule axis_sint_range)+

lemma calibrate_bias_sint:
  "sint (bias_x (calibrate_bias p d h6 h10)) =
     (sint (fst (fst (readXYZ p h6))) + sint (fst (fst (readXYZ p h10)))) sdiv 2"
  "sint (bias_y (calibrate_bias p d h6 h10)) =
     (sint (fst (snd (fst (readXYZ p h6)))) + sint (fst (snd (fst (readXYZ p h10))))) sdiv 2"
  "sint (bias_z (calibrate_bias p d h6 h10)) =
     (sint (snd (snd (fst (readXYZ p h6)))) + sint (snd (snd (fst (readXYZ p h10))))) sdiv 2"
  by (simp_all add: calibrate_bias_def readXYZ_axes axis_mean)

lemma readXYZ_nonneg:
  "0 \<le> sint (fst (fst (readXYZ p h)))"
  "0 \<le> sint (fst (snd (fst (readXYZ p h))))"
  "0 \<le> sint (snd (snd (fst (readXYZ p h))))"
  by (simp_all add: readXYZ_axes axis_sint_range)

lemma readXYZ_sdiv_div:
  "(sint (fst (fst (readXYZ p h6))) + sint (fst (fst (readXYZ p h10)))) sdiv 2 =
   (sint (fst (fst (readXYZ p h6))) + sint (fst (fst (readXYZ p h10)))) div 2"
  "(sint (fst (snd (fst (readXYZ p h6)))) + sint (fst (snd (fst (readXYZ p h10))))) sdiv 2 =
   (sint (fst (snd (fst (readXYZ p h6)))) + sint (fst (snd (fst (readXYZ p h10))))) div 2"
  "(sint (snd (snd (fst (readXYZ p h6)))) + sint (snd (snd (fst (readXYZ p h10))))) sdiv 2 =
   (sint (snd (snd (fst (readXYZ p h6)))) + sint (snd (snd (fst (readXYZ p h10))))) div 2"
  by (rule sdiv_nonneg, rule add_nonneg_nonneg, rule readXYZ_nonneg, rule readXYZ_nonneg)+

lemma calibrate_bias_frame:
  "calibrate_bias p d h6 h10 =
     d\<lparr>bias_x := bias_x (calibrate_bias p d h6 h10),
       bias_y := bias_y (calibrate_bias p d h6 h10),
       bias_z := bias_z (calibrate_bias p d h6 h10)\<rparr>"
  "ctrl2_cache (calibrate_bias p d h6 h10) = ctrl2_cache d"
  "isContinuousMode (calibrate_bias p d h6 h10) = isContinuousMode d"
  by (simp_all add: calibrate_bias_def isContinuousMode_def split_def)

lemma calibrate_exit_writes:
  "last_write MMC56X3_CTRL1_REG (calibrate_exit p d h h10) = Some (dev_read p h MMC56X3_CTRL1_REG 0)"
  "last_write MMC56X3_CTRL2_REG (calibrate_exit p d h h10) = Some (ctrl2_cache d)"
  by (simp_all add: calibrate_exit_def)

section \<open>Temperature and events, unfolded\<close>

lemma readTemperature_unfold:
  "readTemperature p (d, h) =
     (if isContinuousMode d then Some (NAN, (d, h))
      else map_option
        (\<lambda>h1. (Val (temp_of_byte p (dev_read p h1 MMC56X3_OUT_TEMP 0)),
               (d, Rd MMC56X3_OUT_TEMP 1 # h1)))
        (wait_done p 7 (delay 5) (Wr MMC56X3_CTRL0_REG 0x02 # h)))"
  by (cases "wait_done p 7 (delay 5) (Wr MMC56X3_CTRL0_REG 0x02 # h)")
     (simp_all add: reg_write_def reg_read_def Let_def temp_of_byte_def)

lemma getEvent_unfold:
  "getEvent p ev (d, h) =
     map_option (getEvent_result p d)
       (if isContinuousMode d then Some h
        else wait_done p 6 (delay 5) (Wr MMC56X3_CTRL0_REG 0x01 # h))"
proof (cases "isContinuousMode d")
  case True
  then show ?thesis
    by (simp add: getEvent_result_def readXYZ_eq memset_zero_def split_def Let_def)
next
  case False
  then show ?thesis
    by (cases "wait_done p 6 (delay 5) (Wr MMC56X3_CTRL0_REG 0x01 # h)")
       (simp_all add: getEvent_result_def readXYZ_eq memset_zero_def split_def Let_def reg_write_def)
qed

lemma sint_diff_fits:
  "fits_i32 (sint (a :: i32) - sint (b :: i32)) \<Longrightarrow> sint (a - b) = sint a - sint b"
  by (simp add: fits_i32_def sint_word_diff signed_take_bit_int_eq_self)

section \<open>Runs on the concrete platforms\<close>

lemma poll_trace_1: "poll_trace body 1 h = body (Rd MMC56X3_STATUS_REG 1 # h)"
  by (simp only: One_nat_def poll_trace.simps)

lemma first_done_1:
  "first_done p shift body h 1 =
     (\<not> done_bit p shift h \<and> done_bit p shift (body (Rd MMC56X3_STATUS_REG 1 # h)))"
  by (simp only: One_nat_def first_done_Suc first_done_0)

lemma demo_first1: "first_done demo_platform 6 body_S (calibrate_poll1 demo_driver []) 1"
  by (simp add: first_done_Suc first_done_0 done_bit_def demo_platform_def demo_read_def
      since_trigger_def calibrate_poll1_def body_S_def delay_def println_def)

lemma demo_wait1:
  "wait_done demo_platform 6 body_S (calibrate_poll1 demo_driver []) = Some demo_h6"
  unfolding demo_h6_def by (rule wait_done_first) (rule demo_first1)

lemma demo_first2: "first_done demo_platform 6 body_R (calibrate_poll2 demo_h6) 1"
  by (simp add: first_done_Suc first_done_0 done_bit_def demo_platform_def demo_read_def
      since_trigger_def calibrate_poll2_def body_R_def delay_def println_def)

lemma demo_wait2:
  "wait_done demo_platform 6 body_R (calibrate_poll2 demo_h6) = Some demo_h10"
  unfolding demo_h10_def by (rule wait_done_first) (rule demo_first2)

lemma axis_eval: "axis 0 0 0x20 = 2" "axis 0 0 0x10 = 1" "axis 0 5 0 = 80" "axis 0 0 0 = 0"
  by (simp_all add: axis_def)

lemma demo_sample_high: "fst (readXYZ demo_platform demo_h6) = (2, 80, 0)"
  by (simp add: readXYZ_axes demo_platform_def demo_read_def demo_h6_def poll_trace_1
      calibrate_poll1_def body_S_def delay_def println_def axis_eval)

lemma demo_sample_low: "fst (readXYZ demo_platform demo_h10) = (1, 80, 0)"
  by (simp add: readXYZ_axes demo_platform_def demo_read_def demo_h10_def poll_trace_1
      calibrate_poll2_def body_R_def delay_def println_def axis_eval)

lemma demo_bias:
  "calibrate_bias demo_platform demo_driver demo_h6 demo_h10 =
     demo_driver\<lparr>bias_x := 1, bias_y := 80, bias_z := 0\<rparr>"
  by (simp add: calibrate_bias_def demo_sample_high demo_sample_low i32_div_def signed_divide_int_def)

lemma demo_calibrate:
  "calibrate demo_platform (demo_driver, []) =
     Some (demo_driver\<lparr>bias_x := 1, bias_y := 80, bias_z := 0\<rparr>,
           calibrate_exit demo_platform demo_driver [] demo_h10)"
  by (simp only: calibrate_unfold demo_wait1 demo_wait2 demo_bias Option.bind.simps)

lemma stuck_never: "\<not> done_bit stuck_platform shift h"
  by (simp add: done_bit_def stuck_platform_def)

lemma poll_trace_mono:
  assumes "\<And>t. set t \<subseteq> set (body t)"
  shows "set h \<subseteq> set (poll_trace body k h)"
proof (induction k arbitrary: h)
  case 0
  show ?case by simp
next
  case (Suc k)
  have "set h \<subseteq> set (Rd MMC56X3_STATUS_REG 1 # h)" by auto
  also have "\<dots> \<subseteq> set (body (Rd MMC56X3_STATUS_REG 1 # h))" by (rule assms)
  also have "\<dots> \<subseteq> set (poll_trace body k (body (Rd MMC56X3_STATUS_REG 1 # h)))" by (rule Suc.IH)
  finally show ?case by simp
qed

lemma half_stuck_first:
  "wait_done half_stuck_platform 6 body_S (calibrate_poll1 demo_driver []) =
     Some (Rd MMC56X3_STATUS_REG 1 # calibrate_poll1 demo_driver [])"
proof -
  have "first_done half_stuck_platform 6 body_S (calibrate_poll1 demo_driver []) 0"
    by (simp add: first_done_0 done_bit_def half_stuck_platform_def calibrate_poll1_def)
  from wait_done_first [OF this] show ?thesis by simp
qed

lemma half_stuck_second:
  "\<not> done_bit half_stuck_platform 6 (poll_trace body_R k (calibrate_poll2 h6))"
proof -
  have "set t \<subseteq> set (body_R t)" for t
    by (auto simp: body_R_def delay_def println_def)
  then have "set (calibrate_poll2 h6) \<subseteq> set (poll_trace body_R k (calibrate_poll2 h6))"
    by (rule poll_trace_mono)
  moreover have "Wr MMC56X3_CTRL0_REG 0x10 \<in> set (calibrate_poll2 h6)"
    by (simp add: calibrate_poll2_def)
  ultimately have "Wr MMC56X3_CTRL0_REG 0x10 \<in> set (poll_trace body_R k (calibrate_poll2 h6))"
    by blast
  then show ?thesis
    by (simp add: done_bit_def half_stuck_platform_def)
qed

lemma demo_first_event: "first_done demo_platform 6 (delay 5) [Wr MMC56X3_CTRL0_REG 0x01] 2"
proof -
  have "first_done demo_platform 6 (delay 5) [Wr MMC56X3_CTRL0_REG 0x01] (Suc (Suc 0))"
    by (simp add: first_done_Suc first_done_0 done_bit_def demo_platform_def demo_read_def
      since_trigger_def delay_def)
  then show ?thesis by (simp only: numeral_2_eq_2)
qed

lemma demo_not_continuous: "\<not> isContinuousMode demo_driver"
  by (simp add: isContinuousMode_def demo_driver_def)



section \<open>Floating-point rounding\<close>















lemma ieee_scale_err: "scale_err (1 / 2 ^ 24) (1 / 2 ^ 53) \<le> 1 / 2 ^ 22"
  by (simp add: scale_err_def power_divide)

lemma ieee_temp_err:
  assumes "0 \<le> b" "b \<le> 255"
  shows "temp_err (1 / 2 ^ 24) (1 / 2 ^ 53) b \<le> 1 / 2 ^ 14"
proof -
  define A where "A = \<bar>b * 0.8 - 75\<bar>"
  define K where "K = scale_err (1 / 2 ^ 24) (1 / 2 ^ 53) * \<bar>b * 0.8\<bar>"
  have 1: "A \<le> 129" using assms by (simp add: A_def abs_if)
  have 2: "\<bar>b * 0.8\<bar> \<le> 204" using assms by (simp add: abs_if)
  have "K \<le> (1 / 2 ^ 22) * 204"
    unfolding K_def using ieee_scale_err 2 by (intro mult_mono) simp_all
  then have 3: "K \<le> 204 / 2 ^ 22" by simp
  have "temp_err (1 / 2 ^ 24) (1 / 2 ^ 53) b = (1 / 2 ^ 24) * A + (1 + 1 / 2 ^ 24) * (K + (1 / 2 ^ 24) * 75)"
    by (simp only: temp_err_def A_def K_def)
  also have "\<dots> \<le> (1 / 2 ^ 24) * 129 + (1 + 1 / 2 ^ 24) * (204 / 2 ^ 22 + (1 / 2 ^ 24) * 75)"
    using 1 3 by (intro add_mono mult_left_mono) simp_all
  also have "\<dots> \<le> 1 / 2 ^ 14" by simp
  finally show ?thesis .
qed

section \<open>The corrected sample\<close>

text \<open>
  A bias stored by \<open>calibrate\<close> is a 20-bit value, so its difference with any
  decoded sample fits an \<open>int32_t\<close>: after a calibration the corrected sample of
  \<open>getEvent\<close> is the exact difference.
\<close>

lemma decode_axes:
  "decode buffer =
     (axis (buffer ! 0) (buffer ! 1) (buffer ! 6),
      axis (buffer ! 2) (buffer ! 3) (buffer ! 7),
      axis (buffer ! 4) (buffer ! 5) (buffer ! 8))"
  by (rule decode_def)

lemma fits_small:
  "0 \<le> a \<Longrightarrow> a < 2 ^ 20 \<Longrightarrow> 0 \<le> b \<Longrightarrow> b < 2 ^ 20 \<Longrightarrow> fits_i32 (a - b)"
  by (simp add: fits_i32_def)

lemma calibrate_bias_range:
  assumes "calibrate p (d, h) = Some (d', h')"
  shows "0 \<le> sint (bias_x d')" "sint (bias_x d') < 2 ^ 20"
    "0 \<le> sint (bias_y d')" "sint (bias_y d') < 2 ^ 20"
    "0 \<le> sint (bias_z d')" "sint (bias_z d') < 2 ^ 20"
proof -
  from calibrate_SomeD [OF assms] obtain h6 h10 where d': "d' = calibrate_bias p d h6 h10"
    by blast
  have r: "0 \<le> (a + b) div 2 \<and> (a + b) div 2 < 2 ^ 20"
    if "0 \<le> a" "a < 2 ^ 20" "0 \<le> b" "b < 2 ^ 20" for a b :: int
    using that by simp
  have x: "0 \<le> sint (fst (fst (readXYZ p t)))" "sint (fst (fst (readXYZ p t))) < 2 ^ 20"
    and y: "0 \<le> sint (fst (snd (fst (readXYZ p t))))" "sint (fst (snd (fst (readXYZ p t)))) < 2 ^ 20"
    and z: "0 \<le> sint (snd (snd (fst (readXYZ p t))))" "sint (snd (snd (fst (readXYZ p t)))) < 2 ^ 20"
    for t
    by (simp_all only: readXYZ_axes fst_conv snd_conv axis_sint_range)
  show "0 \<le> sint (bias_x d')" "sint (bias_x d') < 2 ^ 20"
    unfolding d' calibrate_bias_sint readXYZ_sdiv_div
    using r [OF x [of h6] x [of h10]] by blast+
  show "0 \<le> sint (bias_y d')" "sint (bias_y d') < 2 ^ 20"
    unfolding d' calibrate_bias_sint readXYZ_sdiv_div
    using r [OF y [of h6] y [of h10]] by blast+
  show "0 \<le> sint (bias_z d')" "sint (bias_z d') < 2 ^ 20"
    unfolding d' calibrate_bias_sint readXYZ_sdiv_div
    using r [OF z [of h6] z [of h10]] by blast+
qed

lemma calibrate_bias_fits:
  assumes "calibrate p (d, h) = Some (d', h')"
  shows "case decode buffer of (X, Y, Z) \<Rightarrow>
           fits_i32 (sint X - sint (bias_x d')) \<and>
           fits_i32 (sint Y - sint (bias_y d')) \<and>
           fits_i32 (sint Z - sint (bias_z d'))"
  unfolding decode_axes prod.case
  by (intro conjI fits_small axis_sint_range calibrate_bias_range [OF assms])


lemma calibrate_then_getEvent:
  assumes c: "calibrate p (d0, h0) = Some (d, h)"
    and g: "getEvent p ev (d, h) = Some (ok, ev', (d', h'))"
  shows "case decode (map (dev_read p (tl h') MMC56X3_OUT_X_L) [0..<9]) of (X, Y, Z) \<Rightarrow>
           sint (raw_x d') = sint X - sint (bias_x d) \<and>
           sint (raw_y d') = sint Y - sint (bias_y d) \<and>
           sint (raw_z d') = sint Z - sint (bias_z d)"
proof -
  from g obtain h1 where "getEvent_result p d h1 = (ok, ev', (d', h'))"
    unfolding getEvent_unfold by blast
  then have h': "tl h' = h1"
    and d': "d' = (case decode (map (dev_read p h1 MMC56X3_OUT_X_L) [0..<9]) of (X, Y, Z) \<Rightarrow>
        d\<lparr>raw_x := X - bias_x d, raw_y := Y - bias_y d, raw_z := Z - bias_z d\<rparr>)"
    by (auto simp: getEvent_result_def split_def)
  show ?thesis
    using calibrate_bias_fits [OF c, of "map (dev_read p h1 MMC56X3_OUT_X_L) [0..<9]"]
    unfolding h' d' by (auto simp: split_def sint_diff_fits)
qed

section \<open>Events and temperatures on the demo platform\<close>




































section \<open>The claims\<close>

text \<open>
  Claim C1. For every nine-byte buffer, the decode yields per axis the 20-bit unsigned
  value \<open>(high << 12) | (mid << 4) | (low >> 4)\<close>, where X takes the bytes 0, 1, 6,
  Y the bytes 2, 3, 7 and Z the bytes 4, 5, 8; and \<open>readXYZ\<close> decodes the nine bytes
  of one burst read at the X output register.
\<close>

theorem readXYZ_decode:
  "readXYZ p h = (decode (map (dev_read p h MMC56X3_OUT_X_L) [0..<9]), Rd MMC56X3_OUT_X_L 9 # h) \<and>
   (case decode [b0, b1, b2, b3, b4, b5, b6, b7, b8] of (x, y, z) \<Rightarrow>
      sint x = push_bit 12 (uint b0) OR push_bit 4 (uint b1) OR drop_bit 4 (uint b6) \<and>
      sint y = push_bit 12 (uint b2) OR push_bit 4 (uint b3) OR drop_bit 4 (uint b7) \<and>
      sint z = push_bit 12 (uint b4) OR push_bit 4 (uint b5) OR drop_bit 4 (uint b8) \<and>
      0 \<le> sint x \<and> sint x < 2 ^ 20 \<and>
      0 \<le> sint y \<and> sint y < 2 ^ 20 \<and>
      0 \<le> sint z \<and> sint z < 2 ^ 20)"
proof -
  have d: "decode [b0, b1, b2, b3, b4, b5, b6, b7, b8] = (axis b0 b1 b6, axis b2 b3 b7, axis b4 b5 b8)"
    by (simp add: decode_def)
  show ?thesis
    unfolding d
    by (simp only: readXYZ_eq axis_sint_or [symmetric] axis_sint_range prod.case simp_thms)
qed




text \<open>
  Claim C3, amended. When \<open>calibrate\<close> returns, the bias of each axis is the integer
  mean \<open>(high + low) / 2\<close> of the two samples in \<open>int32_t\<close> arithmetic, the quotient
  truncated towards zero, which for the non-negative samples of the decode is the
  floor of the exact mean; the expression yields 49980 for high = 100000, low = -40.
\<close>

theorem calibrate_truncated_mean:
  "(calibrate p (d, h) = Some (d', h') \<longrightarrow>
     (\<exists>h6 h10.
        wait_done p 6 body_S (calibrate_poll1 d h) = Some h6 \<and>
        wait_done p 6 body_R (calibrate_poll2 h6) = Some h10 \<and>
        (case (fst (readXYZ p h6), fst (readXYZ p h10)) of
           ((x_high, y_high, z_high), (x_low, y_low, z_low)) \<Rightarrow>
             bias_x d' = i32_div (x_high + x_low) 2 \<and>
             bias_y d' = i32_div (y_high + y_low) 2 \<and>
             bias_z d' = i32_div (z_high + z_low) 2 \<and>
             sint (bias_x d') = (sint x_high + sint x_low) sdiv 2 \<and>
             sint (bias_y d') = (sint y_high + sint y_low) sdiv 2 \<and>
             sint (bias_z d') = (sint z_high + sint z_low) sdiv 2 \<and>
             sint (bias_x d') = (sint x_high + sint x_low) div 2 \<and>
             sint (bias_y d') = (sint y_high + sint y_low) div 2 \<and>
             sint (bias_z d') = (sint z_high + sint z_low) div 2))) \<and>
   i32_div (100000 + (- 40)) 2 = 49980"
proof (intro conjI impI)
  assume "calibrate p (d, h) = Some (d', h')"
  from calibrate_SomeD [OF this] obtain h6 h10 where
    w: "wait_done p 6 body_S (calibrate_poll1 d h) = Some h6"
       "wait_done p 6 body_R (calibrate_poll2 h6) = Some h10"
    and d': "d' = calibrate_bias p d h6 h10"
    by blast
  have c: "case (fst (readXYZ p h6), fst (readXYZ p h10)) of
           ((x_high, y_high, z_high), (x_low, y_low, z_low)) \<Rightarrow>
             bias_x d' = i32_div (x_high + x_low) 2 \<and>
             bias_y d' = i32_div (y_high + y_low) 2 \<and>
             bias_z d' = i32_div (z_high + z_low) 2 \<and>
             sint (bias_x d') = (sint x_high + sint x_low) sdiv 2 \<and>
             sint (bias_y d') = (sint y_high + sint y_low) sdiv 2 \<and>
             sint (bias_z d') = (sint z_high + sint z_low) sdiv 2 \<and>
             sint (bias_x d') = (sint x_high + sint x_low) div 2 \<and>
             sint (bias_y d') = (sint y_high + sint y_low) div 2 \<and>
             sint (bias_z d') = (sint z_high + sint z_low) div 2"
    unfolding d' split_def fst_conv snd_conv
    by (simp only: calibrate_bias_sint readXYZ_sdiv_div simp_thms)
       (simp add: calibrate_bias_def split_def)
  show "\<exists>h6 h10.
        wait_done p 6 body_S (calibrate_poll1 d h) = Some h6 \<and>
        wait_done p 6 body_R (calibrate_poll2 h6) = Some h10 \<and>
        (case (fst (readXYZ p h6), fst (readXYZ p h10)) of
           ((x_high, y_high, z_high), (x_low, y_low, z_low)) \<Rightarrow>
             bias_x d' = i32_div (x_high + x_low) 2 \<and>
             bias_y d' = i32_div (y_high + y_low) 2 \<and>
             bias_z d' = i32_div (z_high + z_low) 2 \<and>
             sint (bias_x d') = (sint x_high + sint x_low) sdiv 2 \<and>
             sint (bias_y d') = (sint y_high + sint y_low) sdiv 2 \<and>
             sint (bias_z d') = (sint z_high + sint z_low) sdiv 2 \<and>
             sint (bias_x d') = (sint x_high + sint x_low) div 2 \<and>
             sint (bias_y d') = (sint y_high + sint y_low) div 2 \<and>
             sint (bias_z d') = (sint z_high + sint z_low) div 2)"
    by (rule exI [of _ h6], rule exI [of _ h10], intro conjI, rule w(1), rule w(2), rule c)
next
  show "i32_div (100000 + (- 40)) 2 = 49980" by (rule i32_mean_example)
qed

theorem calibrate_truncated_mean_witness:
  "calibrate demo_platform (demo_driver, []) =
     Some (demo_driver\<lparr>bias_x := 1, bias_y := 80, bias_z := 0\<rparr>,
           calibrate_exit demo_platform demo_driver [] demo_h10) \<and>
   fst (readXYZ demo_platform demo_h6) = (2, 80, 0) \<and>
   fst (readXYZ demo_platform demo_h10) = (1, 80, 0) \<and>
   sint (bias_x (demo_driver\<lparr>bias_x := 1, bias_y := 80, bias_z := 0\<rparr>)) = (2 + 1) div 2 \<and>
   sint (bias_y (demo_driver\<lparr>bias_x := 1, bias_y := 80, bias_z := 0\<rparr>)) = (80 + 80) div 2 \<and>
   sint (bias_z (demo_driver\<lparr>bias_x := 1, bias_y := 80, bias_z := 0\<rparr>)) = (0 + 0) div 2"
proof -
  let ?D = "demo_driver\<lparr>bias_x := 1, bias_y := 80, bias_z := 0\<rparr>"
  let ?T = "calibrate_exit demo_platform demo_driver [] demo_h10"
  have c: "calibrate demo_platform (demo_driver, []) = Some (?D, ?T)"
    by (rule demo_calibrate)
  from calibrate_truncated_mean [of demo_platform demo_driver "[]" ?D ?T, THEN conjunct1, THEN mp, OF c]
  obtain h6 h10 where
    w: "wait_done demo_platform 6 body_S (calibrate_poll1 demo_driver []) = Some h6"
       "wait_done demo_platform 6 body_R (calibrate_poll2 h6) = Some h10"
    and r: "case (fst (readXYZ demo_platform h6), fst (readXYZ demo_platform h10)) of
           ((x_high, y_high, z_high), (x_low, y_low, z_low)) \<Rightarrow>
             bias_x ?D = i32_div (x_high + x_low) 2 \<and>
             bias_y ?D = i32_div (y_high + y_low) 2 \<and>
             bias_z ?D = i32_div (z_high + z_low) 2 \<and>
             sint (bias_x ?D) = (sint x_high + sint x_low) sdiv 2 \<and>
             sint (bias_y ?D) = (sint y_high + sint y_low) sdiv 2 \<and>
             sint (bias_z ?D) = (sint z_high + sint z_low) sdiv 2 \<and>
             sint (bias_x ?D) = (sint x_high + sint x_low) div 2 \<and>
             sint (bias_y ?D) = (sint y_high + sint y_low) div 2 \<and>
             sint (bias_z ?D) = (sint z_high + sint z_low) div 2"
    by (elim exE conjE)
  from w(1) have h6: "h6 = demo_h6" by (simp add: demo_wait1)
  with w(2) have h10: "h10 = demo_h10" by (simp add: demo_wait2)
  from r have "sint (bias_x ?D) = (2 + 1) div 2 \<and> sint (bias_y ?D) = (80 + 80) div 2 \<and>
     sint (bias_z ?D) = (0 + 0) div 2"
    unfolding h6 h10 demo_sample_high demo_sample_low by simp
  with c demo_sample_high demo_sample_low show ?thesis by simp
qed

text \<open>
  The claim C3 as it was stated, with the rounded mean: on the demo device the two
  X samples are 2 and 1, \<open>calibrate\<close> stores the bias 1, and the rounded mean of 2
  and 1 is 2 (the mean 1.5 rounds to 2 whether ties go up or to the even neighbour).
\<close>

theorem calibrate_rounded_mean_counterexample:
  "wait_done demo_platform 6 body_S (calibrate_poll1 demo_driver []) = Some demo_h6 \<and>
   wait_done demo_platform 6 body_R (calibrate_poll2 demo_h6) = Some demo_h10 \<and>
   fst (readXYZ demo_platform demo_h6) = (2, 80, 0) \<and>
   fst (readXYZ demo_platform demo_h10) = (1, 80, 0) \<and>
   calibrate demo_platform (demo_driver, []) =
     Some (demo_driver\<lparr>bias_x := 1, bias_y := 80, bias_z := 0\<rparr>,
           calibrate_exit demo_platform demo_driver [] demo_h10) \<and>
   round_mean (sint (2 :: i32)) (sint (1 :: i32)) = 2 \<and>
   sint (bias_x (demo_driver\<lparr>bias_x := 1, bias_y := 80, bias_z := 0\<rparr>)) \<noteq>
     round_mean (sint (2 :: i32)) (sint (1 :: i32))"
proof -
  have r: "round_mean (sint (2 :: i32)) (sint (1 :: i32)) = 2"
    by (simp add: round_mean_def round_def)
  then have ne: "sint (bias_x (demo_driver\<lparr>bias_x := 1, bias_y := 80, bias_z := 0\<rparr>)) \<noteq>
     round_mean (sint (2 :: i32)) (sint (1 :: i32))"
    by simp
  show ?thesis
    by (intro conjI)
       (fact demo_wait1 demo_wait2 demo_sample_high demo_sample_low demo_calibrate r ne)+
qed

text \<open>
  Claim C4. \<open>getDataRate\<close> returns the shadow of control register 2 and not the rate
  that \<open>setDataRate\<close> has stored: the rate goes to \<open>odr_cache\<close>, the getter reads
  \<open>ctrl2_cache\<close>. Setting 256 never reads back as 256, and when the shadow holds no
  bit (the power and continuous bits are clear, and no other bit is ever set by the
  driver), every rate from 1 to 255 reads back as 0.
\<close>

theorem getDataRate_returns_ctrl2:
  "getDataRate d = ucast (ctrl2_cache d) \<and>
   odr_cache (fst (setDataRate r (d, h))) = (if 255 < r then 1000 else r) \<and>
   getDataRate (fst (setDataRate r (d, h))) =
     ucast (if 255 < r then ctrl2_cache d OR 0x80 else ctrl2_cache d AND NOT 0x80) \<and>
   getDataRate (fst (setDataRate 256 (d, h))) \<noteq> 256 \<and>
   (ctrl2_cache d AND NOT 0x90 = 0 \<and> ctrl2_cache d AND 0x90 = 0 \<and> 1 \<le> r \<and> r \<le> 255 \<longrightarrow>
      getDataRate (fst (setDataRate r (d, h))) = 0 \<and>
      getDataRate (fst (setDataRate r (d, h))) \<noteq> r)"
proof -
  have ne: "\<And>c :: u8. (ucast c :: u16) \<noteq> 256"
  proof
    fix c :: u8 assume "(ucast c :: u16) = 256"
    then have "uint (ucast c :: u16) = 256" by simp
    then have "uint c = 256" by (simp add: uint_up_ucast is_up)
    with uint_u8_lt [of c] show False by simp
  qed
  have z: "ctrl2_cache d AND NOT 0x90 = 0 \<Longrightarrow> ctrl2_cache d AND 0x90 = 0 \<Longrightarrow> ctrl2_cache d = 0"
  proof -
    assume "ctrl2_cache d AND NOT 0x90 = 0" "ctrl2_cache d AND 0x90 = 0"
    then have "(ctrl2_cache d AND 0x90) OR (ctrl2_cache d AND NOT 0x90) = 0" by simp
    then show "ctrl2_cache d = 0"
      by (simp flip: bit.conj_disj_distrib)
  qed
  have c: "getDataRate (fst (setDataRate r (d, h))) =
     ucast (if 255 < r then ctrl2_cache d OR 0x80 else ctrl2_cache d AND NOT 0x80)"
    by (simp only: getDataRate_def setDataRate_cache)
  have o: "odr_cache (fst (setDataRate r (d, h))) = (if 255 < r then 1000 else r)"
    by (auto simp: Let_def)
  have n: "getDataRate (fst (setDataRate 256 (d, h))) \<noteq> 256"
    by (simp only: getDataRate_def ne not_False_eq_True)
  have e: "ctrl2_cache d AND NOT 0x90 = 0 \<and> ctrl2_cache d AND 0x90 = 0 \<and> 1 \<le> r \<and> r \<le> 255 \<longrightarrow>
      getDataRate (fst (setDataRate r (d, h))) = 0 \<and>
      getDataRate (fst (setDataRate r (d, h))) \<noteq> r"
  proof (intro impI, elim conjE)
    assume a: "ctrl2_cache d AND NOT 0x90 = 0" "ctrl2_cache d AND 0x90 = 0" and r: "1 \<le> r" "r \<le> 255"
    from a have "ctrl2_cache d = 0" by (rule z)
    with r have g: "getDataRate (fst (setDataRate r (d, h))) = 0"
      unfolding c by (simp add: not_less)
    from r have "r \<noteq> 0" by auto
    with g show "getDataRate (fst (setDataRate r (d, h))) = 0 \<and>
      getDataRate (fst (setDataRate r (d, h))) \<noteq> r" by simp
  qed
  from c o n e show ?thesis
    unfolding getDataRate_def by blast
qed

theorem getDataRate_returns_ctrl2_witness:
  "ctrl2_cache demo_driver AND NOT 0x90 = 0 \<and> ctrl2_cache demo_driver AND 0x90 = 0 \<and>
   (1 :: u16) \<le> 100 \<and> (100 :: u16) \<le> 255 \<and>
   odr_cache (fst (setDataRate 100 (demo_driver, []))) = 100 \<and>
   getDataRate (fst (setDataRate 100 (demo_driver, []))) = 0 \<and>
   getDataRate (fst (setDataRate 100 (demo_driver, []))) \<noteq> 100"
  using getDataRate_returns_ctrl2 [of demo_driver 100 "[]"]
  by (simp add: demo_driver_def)




text \<open>
  Claim C6. For every rate above 255, \<open>setDataRate\<close> does what \<open>setDataRate(1000)\<close>
  does: it stores 1000 in the rate cache, writes 255 to the output data rate register
  and sets the high-power bit 0x80 in the shadow and in control register 2.
\<close>

theorem setDataRate_clamp:
  "255 < rate \<Longrightarrow>
     setDataRate rate (d, h) = setDataRate 1000 (d, h) \<and>
     setDataRate rate (d, h) =
       (d\<lparr>odr_cache := 1000, ctrl2_cache := ctrl2_cache d OR 0x80\<rparr>,
        Wr MMC56X3_CTRL2_REG (ctrl2_cache d OR 0x80) # Wr MMC5603_ODR_REG 255 # h)"
  by (simp add: reg_write_def Let_def)

theorem setDataRate_clamp_witness:
  "(255 :: u16) < 300 \<and> setDataRate 300 (demo_driver, []) = setDataRate 1000 (demo_driver, []) \<and>
   odr_cache (fst (setDataRate 300 (demo_driver, []))) = 1000 \<and>
   ctrl2_cache (fst (setDataRate 300 (demo_driver, []))) = 0x80 \<and>
   snd (setDataRate 300 (demo_driver, [])) = [Wr MMC56X3_CTRL2_REG 0x80, Wr MMC5603_ODR_REG 255]"
  using setDataRate_clamp [of 300 demo_driver "[]"]
  by (simp add: demo_driver_def)

text \<open>
  Claim C7. After \<open>setContinuousMode(m)\<close>, \<open>isContinuousMode\<close> returns \<open>m\<close>; and
  \<open>isContinuousMode\<close>, a function of the driver object alone, is bit 4 (mask 0x10) of
  the shadow of control register 2.
\<close>

theorem setContinuousMode_isContinuousMode:
  "isContinuousMode (fst (setContinuousMode m (d, h))) = m \<and>
   isContinuousMode d = bit (ctrl2_cache d) 4"
  by (simp add: isContinuousMode_def and_0x10_bit4 Let_def bit_simps)

text \<open>
  Claim C8. When \<open>calibrate\<close> returns, the driver object differs from the one before
  the call in the bias vector only: the shadow of control register 2 and the answer
  of \<open>isContinuousMode\<close> are those before the call. The last value written to control
  register 1 is the byte read from it on entry, the last value written to control
  register 2 is the saved shadow. And \<open>calibrate\<close> does return when each of its two
  polling loops finds its bit set in some round.
\<close>

theorem calibrate_restores:
  "(calibrate p (d, h) = Some (d', h') \<longrightarrow>
      d' = d\<lparr>bias_x := bias_x d', bias_y := bias_y d', bias_z := bias_z d'\<rparr> \<and>
      ctrl2_cache d' = ctrl2_cache d \<and>
      isContinuousMode d' = isContinuousMode d \<and>
      last_write MMC56X3_CTRL1_REG h' = Some (dev_read p h MMC56X3_CTRL1_REG 0) \<and>
      last_write MMC56X3_CTRL2_REG h' = Some (ctrl2_cache d)) \<and>
   (first_done p 6 body_S (calibrate_poll1 d h) m \<and>
    first_done p 6 body_R
      (calibrate_poll2 (Rd MMC56X3_STATUS_REG 1 # poll_trace body_S m (calibrate_poll1 d h))) n \<longrightarrow>
      (\<exists>s. calibrate p (d, h) = Some s))"
proof (rule conjI)
  show "calibrate p (d, h) = Some (d', h') \<longrightarrow>
      d' = d\<lparr>bias_x := bias_x d', bias_y := bias_y d', bias_z := bias_z d'\<rparr> \<and>
      ctrl2_cache d' = ctrl2_cache d \<and>
      isContinuousMode d' = isContinuousMode d \<and>
      last_write MMC56X3_CTRL1_REG h' = Some (dev_read p h MMC56X3_CTRL1_REG 0) \<and>
      last_write MMC56X3_CTRL2_REG h' = Some (ctrl2_cache d)"
  proof
    assume "calibrate p (d, h) = Some (d', h')"
    from calibrate_SomeD [OF this] obtain h6 h10 where
      "d' = calibrate_bias p d h6 h10" "h' = calibrate_exit p d h h10"
      by blast
    then show "d' = d\<lparr>bias_x := bias_x d', bias_y := bias_y d', bias_z := bias_z d'\<rparr> \<and>
      ctrl2_cache d' = ctrl2_cache d \<and>
      isContinuousMode d' = isContinuousMode d \<and>
      last_write MMC56X3_CTRL1_REG h' = Some (dev_read p h MMC56X3_CTRL1_REG 0) \<and>
      last_write MMC56X3_CTRL2_REG h' = Some (ctrl2_cache d)"
      using calibrate_bias_frame [of p d h6 h10] calibrate_exit_writes [of p d h h10]
      by simp
  qed
next
  show "first_done p 6 body_S (calibrate_poll1 d h) m \<and>
    first_done p 6 body_R
      (calibrate_poll2 (Rd MMC56X3_STATUS_REG 1 # poll_trace body_S m (calibrate_poll1 d h))) n \<longrightarrow>
      (\<exists>s. calibrate p (d, h) = Some s)"
  proof
    assume a: "first_done p 6 body_S (calibrate_poll1 d h) m \<and>
      first_done p 6 body_R
        (calibrate_poll2 (Rd MMC56X3_STATUS_REG 1 # poll_trace body_S m (calibrate_poll1 d h))) n"
    from a have 1: "wait_done p 6 body_S (calibrate_poll1 d h) =
        Some (Rd MMC56X3_STATUS_REG 1 # poll_trace body_S m (calibrate_poll1 d h))"
      by (blast intro: wait_done_first)
    from a have 2: "wait_done p 6 body_R
        (calibrate_poll2 (Rd MMC56X3_STATUS_REG 1 # poll_trace body_S m (calibrate_poll1 d h))) =
        Some (Rd MMC56X3_STATUS_REG 1 # poll_trace body_R n
          (calibrate_poll2 (Rd MMC56X3_STATUS_REG 1 # poll_trace body_S m (calibrate_poll1 d h))))"
      by (blast intro: wait_done_first)
    show "\<exists>s. calibrate p (d, h) = Some s"
      by (simp only: calibrate_unfold 1 2 Option.bind.simps option.inject simp_thms ex_simps)
  qed
qed

theorem calibrate_restores_witness:
  "first_done demo_platform 6 body_S (calibrate_poll1 demo_driver []) 1 \<and>
   first_done demo_platform 6 body_R (calibrate_poll2 demo_h6) 1 \<and>
   calibrate demo_platform (demo_driver, []) =
     Some (demo_driver\<lparr>bias_x := 1, bias_y := 80, bias_z := 0\<rparr>,
           calibrate_exit demo_platform demo_driver [] demo_h10) \<and>
   ctrl2_cache (demo_driver\<lparr>bias_x := 1, bias_y := 80, bias_z := 0\<rparr>) = ctrl2_cache demo_driver \<and>
   isContinuousMode (demo_driver\<lparr>bias_x := 1, bias_y := 80, bias_z := 0\<rparr>) =
     isContinuousMode demo_driver \<and>
   last_write MMC56X3_CTRL1_REG (calibrate_exit demo_platform demo_driver [] demo_h10) = Some 3 \<and>
   last_write MMC56X3_CTRL2_REG (calibrate_exit demo_platform demo_driver [] demo_h10) = Some 0"
proof -
  note t = calibrate_restores [where p = demo_platform and d = demo_driver and h = "[]"
      and d' = "demo_driver\<lparr>bias_x := 1, bias_y := 80, bias_z := 0\<rparr>"
      and h' = "calibrate_exit demo_platform demo_driver [] demo_h10" and m = 1 and n = 1]
  have f2: "first_done demo_platform 6 body_R
      (calibrate_poll2 (Rd MMC56X3_STATUS_REG 1 # poll_trace body_S 1 (calibrate_poll1 demo_driver []))) 1"
    using demo_first2 by (simp only: demo_h6_def)
  from t [THEN conjunct2] demo_first1 f2
  have "\<exists>s. calibrate demo_platform (demo_driver, []) = Some s" by blast
  from t [THEN conjunct1, THEN mp, OF demo_calibrate]
  have "ctrl2_cache (demo_driver\<lparr>bias_x := 1, bias_y := 80, bias_z := 0\<rparr>) = ctrl2_cache demo_driver \<and>
   isContinuousMode (demo_driver\<lparr>bias_x := 1, bias_y := 80, bias_z := 0\<rparr>) =
     isContinuousMode demo_driver \<and>
   last_write MMC56X3_CTRL1_REG (calibrate_exit demo_platform demo_driver [] demo_h10) = Some 3 \<and>
   last_write MMC56X3_CTRL2_REG (calibrate_exit demo_platform demo_driver [] demo_h10) = Some 0"
    by (simp add: demo_platform_def demo_read_def demo_driver_def)
  with demo_first1 demo_first2 demo_calibrate show ?thesis
    by (intro conjI) blast+
qed

text \<open>
  Claim C9. The polling loops have no bound on the number of rounds: a loop whose
  polled bit never reads as set does not end, and a loop whose polled bit first reads
  as set in round \<open>n\<close> ends after that round, whatever \<open>n\<close> is. Hence \<open>calibrate\<close>
  does not return when the bit stays clear in its first or in its second loop, and in
  one-shot mode neither \<open>readTemperature\<close> nor \<open>getEvent\<close> returns when their bit
  stays clear; no result, and so no error, reaches the caller.
\<close>

theorem polling_unbounded:
  "((\<forall>k. \<not> done_bit p shift (poll_trace body k hp)) \<longrightarrow> wait_done p shift body hp = None) \<and>
   (first_done p shift body hp n \<longrightarrow>
      wait_done p shift body hp = Some (Rd MMC56X3_STATUS_REG 1 # poll_trace body n hp)) \<and>
   ((\<forall>k. \<not> done_bit p 6 (poll_trace body_S k (calibrate_poll1 d h))) \<longrightarrow>
      calibrate p (d, h) = None) \<and>
   (wait_done p 6 body_S (calibrate_poll1 d h) = Some hs \<and>
    (\<forall>k. \<not> done_bit p 6 (poll_trace body_R k (calibrate_poll2 hs))) \<longrightarrow>
      calibrate p (d, h) = None) \<and>
   (\<not> isContinuousMode d \<and>
    (\<forall>k. \<not> done_bit p 7 (poll_trace (delay 5) k (Wr MMC56X3_CTRL0_REG 0x02 # h))) \<longrightarrow>
      readTemperature p (d, h) = None) \<and>
   (\<not> isContinuousMode d \<and>
    (\<forall>k. \<not> done_bit p 6 (poll_trace (delay 5) k (Wr MMC56X3_CTRL0_REG 0x01 # h))) \<longrightarrow>
      getEvent p ev (d, h) = None)"
proof (intro conjI impI)
  assume "\<forall>k. \<not> done_bit p shift (poll_trace body k hp)"
  then show "wait_done p shift body hp = None" by (simp add: wait_done_None)
next
  assume "first_done p shift body hp n"
  then show "wait_done p shift body hp = Some (Rd MMC56X3_STATUS_REG 1 # poll_trace body n hp)"
    by (rule wait_done_first)
next
  assume "\<forall>k. \<not> done_bit p 6 (poll_trace body_S k (calibrate_poll1 d h))"
  then have "wait_done p 6 body_S (calibrate_poll1 d h) = None" by (simp add: wait_done_None)
  then show "calibrate p (d, h) = None" by (simp only: calibrate_unfold Option.bind.simps)
next
  assume "wait_done p 6 body_S (calibrate_poll1 d h) = Some hs \<and>
    (\<forall>k. \<not> done_bit p 6 (poll_trace body_R k (calibrate_poll2 hs)))"
  then have 1: "wait_done p 6 body_S (calibrate_poll1 d h) = Some hs"
    and "wait_done p 6 body_R (calibrate_poll2 hs) = None"
    by (simp_all add: wait_done_None)
  then show "calibrate p (d, h) = None" by (simp only: calibrate_unfold Option.bind.simps)
next
  assume "\<not> isContinuousMode d \<and>
    (\<forall>k. \<not> done_bit p 7 (poll_trace (delay 5) k (Wr MMC56X3_CTRL0_REG 0x02 # h)))"
  then have "\<not> isContinuousMode d"
    and "wait_done p 7 (delay 5) (Wr MMC56X3_CTRL0_REG 0x02 # h) = None"
    by (simp_all add: wait_done_None)
  then show "readTemperature p (d, h) = None"
    by (simp only: readTemperature_unfold if_False option.map)
next
  assume "\<not> isContinuousMode d \<and>
    (\<forall>k. \<not> done_bit p 6 (poll_trace (delay 5) k (Wr MMC56X3_CTRL0_REG 0x01 # h)))"
  then have "\<not> isContinuousMode d"
    and "wait_done p 6 (delay 5) (Wr MMC56X3_CTRL0_REG 0x01 # h) = None"
    by (simp_all add: wait_done_None)
  then show "getEvent p ev (d, h) = None"
    by (simp only: getEvent_unfold if_False option.map)
qed

theorem polling_unbounded_witness:
  "wait_done stuck_platform 6 (delay 5) [] = None \<and>
   first_done demo_platform 6 (delay 5) [Wr MMC56X3_CTRL0_REG 0x01] 2 \<and>
   wait_done demo_platform 6 (delay 5) [Wr MMC56X3_CTRL0_REG 0x01] =
     Some [Rd MMC56X3_STATUS_REG 1,
           DelayMs 5, Rd MMC56X3_STATUS_REG 1,
           DelayMs 5, Rd MMC56X3_STATUS_REG 1,
           Wr MMC56X3_CTRL0_REG 0x01] \<and>
   calibrate stuck_platform (demo_driver, []) = None \<and>
   wait_done half_stuck_platform 6 body_S (calibrate_poll1 demo_driver []) =
     Some (Rd MMC56X3_STATUS_REG 1 # calibrate_poll1 demo_driver []) \<and>
   calibrate half_stuck_platform (demo_driver, []) = None \<and>
   \<not> isContinuousMode demo_driver \<and>
   readTemperature stuck_platform (demo_driver, []) = None \<and>
   getEvent stuck_platform demo_event (demo_driver, []) = None"
proof -
  note stuck =
    polling_unbounded [where p = stuck_platform and shift = 6 and body = "delay 5"
      and hp = "[]" and d = demo_driver and h = "[]" and ev = demo_event]
  note demo =
    polling_unbounded [where p = demo_platform and shift = 6 and body = "delay 5"
      and hp = "[Wr MMC56X3_CTRL0_REG 0x01]" and n = 2]
  note half =
    polling_unbounded [where p = half_stuck_platform and d = demo_driver and h = "[]"
      and hs = "Rd MMC56X3_STATUS_REG 1 # calibrate_poll1 demo_driver []"]
  have 1: "wait_done stuck_platform 6 (delay 5) [] = None"
    using stuck by (simp add: stuck_never)
  have 2: "wait_done demo_platform 6 (delay 5) [Wr MMC56X3_CTRL0_REG 0x01] =
     Some (Rd MMC56X3_STATUS_REG 1 # poll_trace (delay 5) 2 [Wr MMC56X3_CTRL0_REG 0x01])"
    using demo demo_first_event by blast
  have 3: "poll_trace (delay 5) 2 [Wr MMC56X3_CTRL0_REG 0x01] =
     [DelayMs 5, Rd MMC56X3_STATUS_REG 1, DelayMs 5, Rd MMC56X3_STATUS_REG 1, Wr MMC56X3_CTRL0_REG 0x01]"
    by (simp add: numeral_2_eq_2 delay_def)
  have 4: "calibrate stuck_platform (demo_driver, []) = None"
    using stuck by (simp add: stuck_never)
  have 5: "calibrate half_stuck_platform (demo_driver, []) = None"
    using half half_stuck_first half_stuck_second by blast
  have 6: "readTemperature stuck_platform (demo_driver, []) = None"
    using stuck demo_not_continuous by (simp add: stuck_never)
  have 7: "getEvent stuck_platform demo_event (demo_driver, []) = None"
    using stuck demo_not_continuous by (simp add: stuck_never)
  from 1 2 3 4 5 6 7 demo_first_event half_stuck_first demo_not_continuous
  show ?thesis by simp
qed

text \<open>
  Claim C10. \<open>setDataRate\<close> leaves every bit of the shadow of control register 2
  other than the high-power bit 0x80 as it was, the continuous-enable bit in
  particular, so \<open>isContinuousMode\<close> answers the same before and after.
\<close>

theorem setDataRate_frame:
  "ctrl2_cache (fst (setDataRate rate (d, h))) AND NOT 0x80 = ctrl2_cache d AND NOT 0x80 \<and>
   bit (ctrl2_cache (fst (setDataRate rate (d, h)))) 4 = bit (ctrl2_cache d) 4 \<and>
   isContinuousMode (fst (setDataRate rate (d, h))) = isContinuousMode d"
proof (cases "255 < rate")
  case True
  then have "ctrl2_cache (fst (setDataRate rate (d, h))) = ctrl2_cache d OR 0x80"
    by (simp only: setDataRate_cache if_True)
  then show ?thesis
    by (simp only: isContinuousMode_def and_0x10_bit4 hpower_on_rest hpower_bit4)
next
  case False
  then have "ctrl2_cache (fst (setDataRate rate (d, h))) = ctrl2_cache d AND NOT 0x80"
    by (simp only: setDataRate_cache if_False)
  then show ?thesis
    by (simp only: isContinuousMode_def and_0x10_bit4 hpower_off_rest hpower_bit4)
qed

end
